theory Spec2Isabelle
  imports Complex_Main
begin

section \<open>Numbers and errors of the script\<close>

text \<open>
  The script \<^verbatim>\<open>geothermal_analysis.py\<close> computes with Python integers and with
  floats. Integers are \<^typ>\<open>int\<close>. A float is modelled by the exact number it
  approximates: \<^typ>\<open>rat\<close> where only the four arithmetic operations occur, and
  \<^typ>\<open>real\<close> where a fractional power occurs. Rounding to 53 bits is not part of
  the model: the values below are those of exact arithmetic, from which the floats
  of the script differ by a relative error of about \<open>10\<^sup>-\<^sup>1\<^sup>6\<close> per operation.
  Whether a division raises does not depend on rounding.

  An exception of the source is a value of \<open>py_error\<close>, returned on the left of a sum.
\<close>

datatype py_error =
  ZeroDivisionError | IndexError | ValueError
  | FileExistsError | FileNotFoundError | IsADirectoryError

text \<open>Python's true division \<^verbatim>\<open>a / b\<close>: raises on a zero divisor.\<close>

definition truediv :: "'a::field \<Rightarrow> 'a \<Rightarrow> py_error + 'a" where
  "truediv a b = (if b = 0 then Inl ZeroDivisionError else Inr (a / b))"

text \<open>
  A list comprehension whose element expression may raise: the first exception
  aborts the comprehension.
\<close>

fun comprehension :: "('a \<Rightarrow> py_error + 'b) \<Rightarrow> 'a list \<Rightarrow> py_error + 'b list" where
  "comprehension f [] = Inr []"
| "comprehension f (x # xs) =
     (case f x of
        Inl e \<Rightarrow> Inl e
      | Inr y \<Rightarrow> (case comprehension f xs of Inl e \<Rightarrow> Inl e | Inr ys \<Rightarrow> Inr (y # ys)))"

text \<open>
  \<^verbatim>\<open>np.mean\<close> of a one-dimensional sequence. On an empty sequence numpy returns
  \<^verbatim>\<open>nan\<close> (with a warning, no exception); \<open>None\<close> stands for that \<^verbatim>\<open>nan\<close>.
\<close>

definition np_mean :: "rat list \<Rightarrow> rat option" where
  "np_mean xs = (if xs = [] then None else Some (sum_list xs / of_nat (length xs)))"

text \<open>
  The subscript \<^verbatim>\<open>xs[i]\<close> of a Python sequence: an index from \<^verbatim>\<open>-len(xs)\<close> to
  \<^verbatim>\<open>-1\<close> is taken from the end, and an index outside \<^verbatim>\<open>-len(xs) .. len(xs)-1\<close>
  raises.
\<close>

definition getitem :: "'a list \<Rightarrow> int \<Rightarrow> py_error + 'a" where
  "getitem xs i =
     (if 0 \<le> i \<and> i < int (length xs) then Inr (xs ! nat i)
      else if i < 0 \<and> - int (length xs) \<le> i then Inr (xs ! nat (int (length xs) + i))
      else Inl IndexError)"

section \<open>Capacity trend\<close>

text \<open>
  \<^verbatim>\<open>plot_geothermal_capacity_trend\<close>: \<^verbatim>\<open>years = np.arange(2005, 2021)\<close> and the
  literal capacity table.
\<close>

definition years :: "int list" where
  "years = [2005..2020]"

definition capacity_mw :: "int list" where
  "capacity_mw = [8686, 8918, 9139, 9459, 9899, 10121, 10011, 10471,
                  10740, 11221, 11846, 12706, 13299, 13928, 14600, 15406]"

text \<open>
  \<^verbatim>\<open>cagr = (capacity_mw[-1]/capacity_mw[0])**(1/(len(years)-1)) - 1\<close>.
  Both divisions can raise. The power of two floats is \<open>powr\<close>, which is Python's
  \<^verbatim>\<open>**\<close> for a positive base (for a negative base and a fractional exponent
  Python yields a complex number, which the embedded table never produces).
\<close>

definition cagr :: "py_error + real" where
  "cagr =
     (case getitem capacity_mw (-1) of Inl e \<Rightarrow> Inl e | Inr lst \<Rightarrow>
     (case getitem capacity_mw 0 of Inl e \<Rightarrow> Inl e | Inr fst_cap \<Rightarrow>
     (case truediv (real_of_int lst) (real_of_int fst_cap) of Inl e \<Rightarrow> Inl e | Inr ratio \<Rightarrow>
     (case truediv 1 (real_of_int (int (length years) - 1)) of Inl e \<Rightarrow> Inl e | Inr expo \<Rightarrow>
      Inr (ratio powr expo - 1)))))"

section \<open>Top countries\<close>

definition countries :: "string list" where
  "countries = [''United States'', ''Indonesia'', ''Philippines'', ''Turkey'',
                ''New Zealand'', ''Italy'', ''Iceland'', ''Kenya'', ''Mexico'', ''Japan'']"

definition generation_gwh :: "int list" where
  "generation_gwh = [18000, 14600, 10730, 8900, 8200, 6100, 6000, 5500, 5400, 2900]"

definition installed_mw :: "int list" where
  "installed_mw = [2600, 2100, 1900, 1500, 1000, 900, 750, 800, 950, 550]"

text \<open>
  What \<^verbatim>\<open>plot_top_geothermal_countries\<close> draws on one axes: the bars
  (\<^verbatim>\<open>ax.bar(countries, values)\<close>) and the horizontal lines
  (\<^verbatim>\<open>ax.axhline(y=...)\<close>), each by its position. Colours, labels and tick
  rotation are left out.
\<close>

record bar_axes =
  bar_x :: "string list"
  bar_height :: "rat list"
  axhline_y :: "rat option list"

definition top_countries_ax1 :: bar_axes where
  "top_countries_ax1 =
     \<lparr>bar_x = countries, bar_height = map of_int generation_gwh,
      axhline_y = [np_mean (map of_int generation_gwh)]\<rparr>"

definition top_countries_ax2 :: bar_axes where
  "top_countries_ax2 =
     \<lparr>bar_x = countries, bar_height = map of_int installed_mw,
      axhline_y = [np_mean (map of_int installed_mw)]\<rparr>"

section \<open>Investment trends\<close>

text \<open>
  \<^verbatim>\<open>plot_investment_trends\<close>. Its local \<^verbatim>\<open>years\<close> is named
  \<open>investment_years\<close> here, the capacity-trend chart having a local of the same
  name.
\<close>

definition investment_years :: "int list" where
  "investment_years = [2010..2020]"

definition investment :: "int list" where
  "investment = [1600, 2900, 1700, 2200, 2800, 2000, 2400, 3100, 2300, 1800, 2500]"

definition cumulative_capacity :: "int list" where
  "cumulative_capacity = [10121, 10011, 10471, 10740, 11221, 11846,
                          12706, 13299, 13928, 14600, 15406]"

definition new_capacity :: "int list" where
  "new_capacity = [222, -110, 460, 269, 481, 625, 860, 593, 629, 672, 806]"

text \<open>
  The element expression \<^verbatim>\<open>inv / max(cap, 1)\<close> of the comprehension (the
  loop variable \<^verbatim>\<open>inv\<close> is written \<open>invst\<close>, \<open>inv\<close> being a constant of HOL).
\<close>

definition inv_per_mw_entry :: "int \<Rightarrow> int \<Rightarrow> py_error + rat" where
  "inv_per_mw_entry invst cap = truediv (of_int invst) (of_int (max cap 1))"

text \<open>
  \<^verbatim>\<open>inv_per_mw = [inv / max(cap, 1) for inv, cap in zip(investment, new_capacity)]\<close>
\<close>

definition inv_per_mw :: "py_error + rat list" where
  "inv_per_mw = comprehension (\<lambda>(invst, cap). inv_per_mw_entry invst cap) (zip investment new_capacity)"

text \<open>\<^verbatim>\<open>avg_inv_per_mw = np.mean([i for i in inv_per_mw if i > 0])\<close>\<close>

definition avg_inv_per_mw :: "py_error + rat option" where
  "avg_inv_per_mw =
     (case inv_per_mw of Inl e \<Rightarrow> Inl e | Inr rs \<Rightarrow> Inr (np_mean (filter (\<lambda>i. i > 0) rs)))"

text \<open>
  The average as the specification words it, for comparison with the code: the
  ratios \<^verbatim>\<open>inv / cap\<close> of the entries whose new capacity is strictly positive.
\<close>

definition spec_avg_inv_per_mw :: "rat option" where
  "spec_avg_inv_per_mw =
     np_mean (map (\<lambda>(invst, cap). of_int invst / of_int cap)
                  (filter (\<lambda>(invst, cap). cap > 0) (zip investment new_capacity)))"

section \<open>Technology comparison\<close>

definition technologies :: "string list" where
  "technologies = [''Solar PV'', ''Wind Onshore'', ''Wind Offshore'',
                   ''Hydropower'', ''Geothermal'', ''Biomass'']"

definition capacity_factors :: "rat list" where
  "capacity_factors = [24.3, 35.6, 43.5, 44.2, 83.1, 75.2]"

definition lcoe_values :: "int list" where
  "lcoe_values = [57, 39, 84, 47, 71, 85]"

text \<open>
  \<^verbatim>\<open>sns.barplot(x='Technology', y=..., data=df, ax=ax)\<close> draws one bar per row of
  the frame, in row order; \<^verbatim>\<open>ax.patches\<close> is the list of these bars. Only the
  face colour of a bar is modelled. The colours seaborn gives the bars are the
  library's choice and enter as the parameter \<open>palette\<close>.
\<close>

definition barplot_patches :: "(nat \<Rightarrow> string) \<Rightarrow> 'a list \<Rightarrow> string list" where
  "barplot_patches palette rows = map palette [0..<length rows]"

text \<open>
  The colour chosen in the body of the loop:
  \<^verbatim>\<open>if tech == 'Geothermal': ... '#d62728' else: ... '#1f77b4'\<close>.
\<close>

definition facecolor_of :: "string \<Rightarrow> string" where
  "facecolor_of tech = (if tech = ''Geothermal'' then ''#d62728'' else ''#1f77b4'')"

text \<open>
  \<^verbatim>\<open>for i, tech in enumerate(technologies): ax.patches[i].set_facecolor(...)\<close>,
  with the counter \<open>i\<close> of \<^verbatim>\<open>enumerate\<close> as first argument. Reading
  \<^verbatim>\<open>ax.patches[i]\<close> beyond the last bar raises.
\<close>

fun set_facecolors :: "nat \<Rightarrow> string list \<Rightarrow> string list \<Rightarrow> py_error + string list" where
  "set_facecolors i [] patches = Inr patches"
| "set_facecolors i (tech # techs) patches =
     (if i < length patches
      then set_facecolors (Suc i) techs (patches[i := facecolor_of tech])
      else Inl IndexError)"

text \<open>The face colours of the bars of the two charts when the loops are done.\<close>

definition technology_comparison_ax1 :: "(nat \<Rightarrow> string) \<Rightarrow> py_error + string list" where
  "technology_comparison_ax1 palette =
     set_facecolors 0 technologies (barplot_patches palette (zip technologies capacity_factors))"

definition technology_comparison_ax2 :: "(nat \<Rightarrow> string) \<Rightarrow> py_error + string list" where
  "technology_comparison_ax2 palette =
     set_facecolors 0 technologies (barplot_patches palette (zip technologies lcoe_values))"

section \<open>Regional potential\<close>

definition regions :: "string list" where
  "regions = [''North America'', ''Central America'', ''South America'',
              ''Europe'', ''Africa'', ''Middle East'', ''Central Asia'',
              ''East Asia'', ''Southeast Asia'', ''Oceania'']"

definition potential_capacity_gw :: "int list" where
  "potential_capacity_gw = [35, 6, 12, 18, 15, 2, 8, 27, 30, 9]"

definition installed_capacity_gw :: "rat list" where
  "installed_capacity_gw = [3.2, 0.7, 0.9, 3.3, 0.7, 0.1, 0.1, 3.8, 4.8, 1.4]"

text \<open>The element expression \<^verbatim>\<open>i/p*100\<close>, that is \<^verbatim>\<open>(i/p)*100\<close>.\<close>

definition utilization_entry :: "rat \<Rightarrow> int \<Rightarrow> py_error + rat" where
  "utilization_entry i p = (case truediv i (of_int p) of Inl e \<Rightarrow> Inl e | Inr q \<Rightarrow> Inr (q * 100))"

text \<open>\<^verbatim>\<open>[i/p*100 for i, p in zip(installed, potential)]\<close> for any two sequences.\<close>

definition utilization_of :: "rat list \<Rightarrow> int list \<Rightarrow> py_error + rat list" where
  "utilization_of installed potential =
     comprehension (\<lambda>(i, p). utilization_entry i p) (zip installed potential)"

definition utilization :: "py_error + rat list" where
  "utilization = utilization_of installed_capacity_gw potential_capacity_gw"

text \<open>
  A row of the frame; the columns \<^verbatim>\<open>'Region'\<close>, \<^verbatim>\<open>'Potential (GW)'\<close>,
  \<^verbatim>\<open>'Installed (GW)'\<close> and \<^verbatim>\<open>'Utilization (%)'\<close>.
\<close>

record region_row =
  region :: string
  potential_gw :: int
  installed_gw :: rat
  utilization_pct :: rat

text \<open>
  \<^verbatim>\<open>pd.DataFrame({...})\<close> of four columns: pandas raises \<^verbatim>\<open>ValueError\<close> when
  the columns differ in length.
\<close>

definition data_frame ::
  "string list \<Rightarrow> int list \<Rightarrow> rat list \<Rightarrow> rat list \<Rightarrow> py_error + region_row list" where
  "data_frame rs ps is us =
     (if length ps = length rs \<and> length is = length rs \<and> length us = length rs
      then Inr (map (\<lambda>(r, p, i, u).
                  \<lparr>region = r, potential_gw = p, installed_gw = i, utilization_pct = u\<rparr>)
                (zip rs (zip ps (zip is us))))
      else Inl ValueError)"

text \<open>
  \<^verbatim>\<open>df.sort_values('Potential (GW)', ascending=False)\<close>: the rows in descending
  order of potential. Rows of equal potential are kept in their order here; pandas'
  default sort does not promise that, and the embedded potentials are pairwise
  distinct.
\<close>

definition sort_values_desc :: "region_row list \<Rightarrow> region_row list" where
  "sort_values_desc rows = sort_key (\<lambda>r. - potential_gw r) rows"

text \<open>The frame of \<^verbatim>\<open>plot_geothermal_potential_map\<close> after its sort.\<close>

definition potential_map_frame :: "py_error + region_row list" where
  "potential_map_frame =
     (case utilization of Inl e \<Rightarrow> Inl e | Inr us \<Rightarrow>
     (case data_frame regions potential_capacity_gw installed_capacity_gw us of
        Inl e \<Rightarrow> Inl e
      | Inr df \<Rightarrow> Inr (sort_values_desc df)))"

section \<open>Files, console and the driver\<close>

text \<open>
  The six chart topics. What matplotlib encodes into an image file depends on the
  library and, for the working-fluid chart, on the random noise drawn in that run
  (\<^verbatim>\<open>np.random.normal\<close>); the encoded images of one run enter as a parameter
  \<open>render\<close>, one image per topic.
\<close>

datatype chart =
  CapacityTrend | TechnologyComparison | TopCountries
  | OrcEfficiency | InvestmentTrends | PotentialMap

text \<open>
  The part of the environment the script acts on: the directories and the regular
  files that exist (by path, as the script spells it), the paths handed to
  \<^verbatim>\<open>plt.savefig\<close> so far in order, and the arguments of the \<^verbatim>\<open>print\<close> calls so
  far in order. The working directory always exists.
\<close>

record 'img world =
  dirs :: "string set"
  files :: "string \<rightharpoonup> 'img"
  written :: "string list"
  console :: "string list"

text \<open>
  \<^verbatim>\<open>Path(p).mkdir(exist_ok=True)\<close>: nothing happens when the directory exists,
  \<^verbatim>\<open>FileExistsError\<close> when the path is a regular file.
\<close>

definition mkdir_exist_ok :: "string \<Rightarrow> 'img world \<Rightarrow> py_error + 'img world" where
  "mkdir_exist_ok p w =
     (if p \<in> dirs w then Inr w
      else if p \<in> dom (files w) then Inl FileExistsError
      else Inr (w\<lparr>dirs := insert p (dirs w)\<rparr>))"

text \<open>The directory part of a path: all before its last \<^verbatim>\<open>/\<close>.\<close>

definition parent_dir :: "string \<Rightarrow> string" where
  "parent_dir p = rev (drop 1 (dropWhile (\<lambda>c. c \<noteq> CHR ''/'') (rev p)))"

text \<open>
  \<^verbatim>\<open>plt.savefig(p, dpi=300)\<close> opens \<open>p\<close> for writing and replaces its content:
  \<^verbatim>\<open>FileNotFoundError\<close> when the directory of \<open>p\<close> does not exist,
  \<^verbatim>\<open>IsADirectoryError\<close> when \<open>p\<close> is a directory.
\<close>

definition savefig :: "string \<Rightarrow> 'img \<Rightarrow> 'img world \<Rightarrow> py_error + 'img world" where
  "savefig p img w =
     (if parent_dir p \<notin> dirs w then Inl FileNotFoundError
      else if p \<in> dirs w then Inl IsADirectoryError
      else Inr (w\<lparr>files := (files w)(p \<mapsto> img), written := written w @ [p]\<rparr>))"

text \<open>\<^verbatim>\<open>print(s)\<close> never fails here; it is a step like the others.\<close>

definition print :: "string \<Rightarrow> 'img world \<Rightarrow> py_error + 'img world" where
  "print s w = Inr (w\<lparr>console := console w @ [s]\<rparr>)"

text \<open>
  Statements in sequence: the first exception ends the run, and what was written
  and printed before it stays. The result is the exception, if any, and the world
  reached.
\<close>

fun run_steps :: "('s \<Rightarrow> py_error + 's) list \<Rightarrow> 's \<Rightarrow> py_error option \<times> 's" where
  "run_steps [] w = (None, w)"
| "run_steps (f # fs) w =
     (case f w of Inl e \<Rightarrow> (Some e, w) | Inr w' \<Rightarrow> run_steps fs w')"

text \<open>
  The chart operations, as steps on the world: the computations of the function
  that can raise, in the order of the source, then its \<^verbatim>\<open>savefig\<close>.
\<close>

text \<open>
  \<^verbatim>\<open>for i in [0, 5, 10, 15]: ax.annotate(f'{capacity_mw[i]} MW', xy=(years[i], capacity_mw[i]), ...)\<close>
\<close>

definition annotations :: "py_error + (int \<times> int) list" where
  "annotations =
     comprehension
       (\<lambda>i. case getitem capacity_mw i of Inl e \<Rightarrow> Inl e | Inr c \<Rightarrow>
            (case getitem years i of Inl e \<Rightarrow> Inl e | Inr y \<Rightarrow> Inr (y, c)))
       [0, 5, 10, 15]"

definition plot_geothermal_capacity_trend ::
  "(chart \<Rightarrow> 'img) \<Rightarrow> 'img world \<Rightarrow> py_error + 'img world" where
  "plot_geothermal_capacity_trend render w =
     (case annotations of Inl e \<Rightarrow> Inl e | Inr _ \<Rightarrow>
     (case cagr of Inl e \<Rightarrow> Inl e | Inr _ \<Rightarrow>
        savefig ''./results/geothermal_capacity_trend.png'' (render CapacityTrend) w))"

definition plot_technology_comparison ::
  "(chart \<Rightarrow> 'img) \<Rightarrow> (nat \<Rightarrow> string) \<Rightarrow> 'img world \<Rightarrow> py_error + 'img world" where
  "plot_technology_comparison render palette w =
     (case technology_comparison_ax1 palette of Inl e \<Rightarrow> Inl e | Inr _ \<Rightarrow>
     (case technology_comparison_ax2 palette of Inl e \<Rightarrow> Inl e | Inr _ \<Rightarrow>
        savefig ''./results/renewable_technology_comparison.png'' (render TechnologyComparison) w))"

definition plot_top_geothermal_countries ::
  "(chart \<Rightarrow> 'img) \<Rightarrow> 'img world \<Rightarrow> py_error + 'img world" where
  "plot_top_geothermal_countries render w =
     savefig ''./results/top_geothermal_countries.png'' (render TopCountries) w"

text \<open>
  The working-fluid chart computes its curves with additions and multiplications
  only; the curves reach the world through \<open>render\<close>.
\<close>

definition plot_orc_efficiency_comparison ::
  "(chart \<Rightarrow> 'img) \<Rightarrow> 'img world \<Rightarrow> py_error + 'img world" where
  "plot_orc_efficiency_comparison render w =
     savefig ''./results/orc_working_fluid_comparison.png'' (render OrcEfficiency) w"

definition plot_investment_trends ::
  "(chart \<Rightarrow> 'img) \<Rightarrow> 'img world \<Rightarrow> py_error + 'img world" where
  "plot_investment_trends render w =
     (case avg_inv_per_mw of Inl e \<Rightarrow> Inl e | Inr _ \<Rightarrow>
        savefig ''./results/geothermal_investment_trends.png'' (render InvestmentTrends) w)"

definition plot_geothermal_potential_map ::
  "(chart \<Rightarrow> 'img) \<Rightarrow> 'img world \<Rightarrow> py_error + 'img world" where
  "plot_geothermal_potential_map render w =
     (case potential_map_frame of Inl e \<Rightarrow> Inl e | Inr _ \<Rightarrow>
        savefig ''./results/geothermal_potential_by_region.png'' (render PotentialMap) w)"

text \<open>
  The check mark U+2713 that opens the progress lines, as the three bytes of its
  UTF-8 encoding, and the line feed that opens the last line.
\<close>

definition check_mark :: string where
  "check_mark = [CHR 0xE2, CHR 0x9C, CHR 0x93]"

definition generate_all_visualizations ::
  "(chart \<Rightarrow> 'img) \<Rightarrow> (nat \<Rightarrow> string) \<Rightarrow> 'img world \<Rightarrow> py_error option \<times> 'img world" where
  "generate_all_visualizations render palette w =
     run_steps
       [print ''Generating geothermal energy visualizations...'',
        plot_geothermal_capacity_trend render,
        print (check_mark @ '' Generated capacity trend visualization''),
        plot_technology_comparison render palette,
        print (check_mark @ '' Generated technology comparison visualization''),
        plot_top_geothermal_countries render,
        print (check_mark @ '' Generated top countries visualization''),
        plot_orc_efficiency_comparison render,
        print (check_mark @ '' Generated ORC efficiency comparison''),
        plot_investment_trends render,
        print (check_mark @ '' Generated investment trends visualization''),
        plot_geothermal_potential_map render,
        print (check_mark @ '' Generated geothermal potential map''),
        print (CHR 0x0A # ''All visualizations have been saved to the 'results' directory.'')]
       w"

text \<open>
  Running the script: the module-level \<^verbatim>\<open>Path("./results").mkdir(exist_ok=True)\<close>,
  then \<^verbatim>\<open>generate_all_visualizations()\<close> under \<^verbatim>\<open>__main__\<close>.
\<close>

definition script ::
  "(chart \<Rightarrow> 'img) \<Rightarrow> (nat \<Rightarrow> string) \<Rightarrow> 'img world \<Rightarrow> py_error option \<times> 'img world" where
  "script render palette w =
     (case mkdir_exist_ok ''./results'' w of
        Inl e \<Rightarrow> (Some e, w)
      | Inr w' \<Rightarrow> generate_all_visualizations render palette w')"

text \<open>
  Two concrete inputs for the runs evaluated below: a working directory that holds
  nothing yet, with images named by their topic, and a palette that gives every
  bar the same colour.
\<close>

definition fresh_world :: "chart world" where
  "fresh_world = \<lparr>dirs = {}, files = Map.empty, written = [], console = []\<rparr>"

definition flat_palette :: "nat \<Rightarrow> string" where
  "flat_palette i = ''#3274a1''"

section \<open>Values of the embedded computations\<close>

lemma inv_per_mw_value:
  "inv_per_mw = Inr [1600 / 222, 2900, 1700 / 460, 2200 / 269, 2800 / 481, 2000 / 625,
                     2400 / 860, 3100 / 593, 2300 / 629, 1800 / 672, 2500 / 806]"
  by (simp add: inv_per_mw_def investment_def new_capacity_def inv_per_mw_entry_def truediv_def)

lemma avg_inv_per_mw_value:
  "avg_inv_per_mw = Inr (Some (49473859434558437839 / 184757012911691220))"
  by (simp add: avg_inv_per_mw_def inv_per_mw_value np_mean_def)

lemma cagr_value: "cagr = Inr ((15406 / 8686) powr (1 / 15) - 1)"
  by (simp add: cagr_def getitem_def capacity_mw_def years_def truediv_def Let_def)

lemma annotations_value:
  "annotations = Inr [(2005, 8686), (2010, 10121), (2015, 11846), (2020, 15406)]"
  by (simp add: annotations_def getitem_def capacity_mw_def years_def Let_def upto.simps)

lemma technology_colors:
  "technology_comparison_ax1 p = Inr (map facecolor_of technologies)"
  "technology_comparison_ax2 p = Inr (map facecolor_of technologies)"
  by (simp_all add: technology_comparison_ax1_def technology_comparison_ax2_def
      technologies_def capacity_factors_def lcoe_values_def barplot_patches_def upt_rec)

lemma utilization_value:
  "utilization = Inr [3.2 / 35 * 100, 0.7 / 6 * 100, 0.9 / 12 * 100, 3.3 / 18 * 100,
     0.7 / 15 * 100, 0.1 / 2 * 100, 0.1 / 8 * 100, 3.8 / 27 * 100, 4.8 / 30 * 100,
     1.4 / 9 * 100]"
  by (simp add: utilization_def utilization_of_def utilization_entry_def truediv_def
      installed_capacity_gw_def potential_capacity_gw_def)

lemma potential_map_frame_returns: "\<exists>rows. potential_map_frame = Inr rows"
  by (simp add: potential_map_frame_def utilization_value data_frame_def regions_def
      installed_capacity_gw_def potential_capacity_gw_def)

text \<open>
  With pairwise distinct potentials there is one descending order only: every
  rearrangement of the rows that is in descending order of potential is the result
  of \<open>sort_values_desc\<close>, whatever algorithm produced it.
\<close>

lemma sort_values_desc_unique:
  assumes m: "set ys = set xs" "distinct ys"
    and s: "sorted (map (\<lambda>r. - potential_gw r) ys)"
    and d: "distinct (map potential_gw xs)"
  shows "ys = sort_values_desc xs"
proof -
  let ?k = "\<lambda>r. - potential_gw r"
  let ?zs = "sort_key ?k xs"
  have inj: "inj_on ?k (set xs)"
    using d by (simp add: distinct_map inj_on_def)
  have dy: "distinct (map ?k ys)"
    using m inj by (simp add: distinct_map)
  have dz: "distinct (map ?k ?zs)"
    using d inj by (simp add: distinct_map)
  have "map ?k ys = map ?k ?zs"
    by (rule sorted_distinct_set_unique) (use s dy dz m in simp_all)
  moreover have "inj_on ?k (set ys \<union> set ?zs)"
    using inj m by simp
  ultimately show ?thesis
    unfolding sort_values_desc_def by (rule map_inj_on)
qed

subsection \<open>Fifteenth roots\<close>

lemma powr_fifteenth: "(a ^ 15) powr (1 / 15) = a" if "0 < a" for a :: real
proof -
  have p: "a powr 15 = a ^ 15" using that by simp
  have "(a powr 15) powr (1 / 15) = a powr (15 * (1 / 15))" by (rule powr_powr)
  also have "\<dots> = a" using that by simp
  finally show ?thesis by (simp only: p)
qed

lemma root15_lower: "a < x powr (1 / 15)" if "0 < a" "a ^ 15 < x" for a x :: real
proof -
  have "(a ^ 15) powr (1 / 15) < x powr (1 / 15)"
    by (rule powr_less_mono2) (use that in simp_all)
  with powr_fifteenth [OF that(1)] show ?thesis by simp
qed

lemma root15_upper: "x powr (1 / 15) < a" if "0 < a" "0 \<le> x" "x < a ^ 15" for a x :: real
proof -
  have "x powr (1 / 15) < (a ^ 15) powr (1 / 15)"
    by (rule powr_less_mono2) (use that in simp_all)
  with powr_fifteenth [OF that(1)] show ?thesis by simp
qed

lemma growth_factor_lower: "(103894 / 100000 :: real) < (15406 / 8686) powr (1 / 15)"
  by (rule root15_lower) (simp_all add: power_divide divide_simps)

lemma growth_factor_upper: "(15406 / 8686) powr (1 / 15) < (103895 / 100000 :: real)"
  by (rule root15_upper) (simp_all add: power_divide divide_simps)

subsection \<open>The chart operations reach their \<^verbatim>\<open>savefig\<close>\<close>

lemma plot_geothermal_capacity_trend_savefig:
  "plot_geothermal_capacity_trend render w =
     savefig ''./results/geothermal_capacity_trend.png'' (render CapacityTrend) w"
  by (simp add: plot_geothermal_capacity_trend_def cagr_value annotations_value)

lemma plot_technology_comparison_savefig:
  "plot_technology_comparison render palette w =
     savefig ''./results/renewable_technology_comparison.png'' (render TechnologyComparison) w"
  by (simp add: plot_technology_comparison_def technology_colors)

lemma plot_investment_trends_savefig:
  "plot_investment_trends render w =
     savefig ''./results/geothermal_investment_trends.png'' (render InvestmentTrends) w"
  by (simp add: plot_investment_trends_def avg_inv_per_mw_value)

lemma plot_geothermal_potential_map_savefig:
  "plot_geothermal_potential_map render w =
     savefig ''./results/geothermal_potential_by_region.png'' (render PotentialMap) w"
proof -
  from potential_map_frame_returns obtain rows where e: "potential_map_frame = Inr rows" ..
  show ?thesis unfolding plot_geothermal_potential_map_def e by simp
qed

lemma parent_dirs:
  "parent_dir ''./results/geothermal_capacity_trend.png'' = ''./results''"
  "parent_dir ''./results/renewable_technology_comparison.png'' = ''./results''"
  "parent_dir ''./results/top_geothermal_countries.png'' = ''./results''"
  "parent_dir ''./results/orc_working_fluid_comparison.png'' = ''./results''"
  "parent_dir ''./results/geothermal_investment_trends.png'' = ''./results''"
  "parent_dir ''./results/geothermal_potential_by_region.png'' = ''./results''"
  by (simp_all add: parent_dir_def)

text \<open>
  The driver, started where the output directory exists and none of the six paths
  is a directory: no exception, and the world it leaves.
\<close>

lemma generate_all_visualizations_ok:
  assumes d: "''./results'' \<in> dirs w"
    and n: "dirs w \<inter> {''./results/geothermal_capacity_trend.png'',
        ''./results/renewable_technology_comparison.png'',
        ''./results/top_geothermal_countries.png'',
        ''./results/orc_working_fluid_comparison.png'',
        ''./results/geothermal_investment_trends.png'',
        ''./results/geothermal_potential_by_region.png''} = {}"
  shows "generate_all_visualizations render palette w =
    (None, w\<lparr>files := (files w)(''./results/geothermal_capacity_trend.png'' \<mapsto> render CapacityTrend,
        ''./results/renewable_technology_comparison.png'' \<mapsto> render TechnologyComparison,
        ''./results/top_geothermal_countries.png'' \<mapsto> render TopCountries,
        ''./results/orc_working_fluid_comparison.png'' \<mapsto> render OrcEfficiency,
        ''./results/geothermal_investment_trends.png'' \<mapsto> render InvestmentTrends,
        ''./results/geothermal_potential_by_region.png'' \<mapsto> render PotentialMap),
      written := written w @ [''./results/geothermal_capacity_trend.png'',
        ''./results/renewable_technology_comparison.png'',
        ''./results/top_geothermal_countries.png'',
        ''./results/orc_working_fluid_comparison.png'',
        ''./results/geothermal_investment_trends.png'',
        ''./results/geothermal_potential_by_region.png''],
      console := console w @ [''Generating geothermal energy visualizations...'',
        check_mark @ '' Generated capacity trend visualization'',
        check_mark @ '' Generated technology comparison visualization'',
        check_mark @ '' Generated top countries visualization'',
        check_mark @ '' Generated ORC efficiency comparison'',
        check_mark @ '' Generated investment trends visualization'',
        check_mark @ '' Generated geothermal potential map'',
        CHR 0x0A # ''All visualizations have been saved to the 'results' directory.'']\<rparr>)"
  using d n
  by (simp add: generate_all_visualizations_def plot_geothermal_capacity_trend_savefig
      plot_technology_comparison_savefig plot_investment_trends_savefig
      plot_geothermal_potential_map_savefig plot_top_geothermal_countries_def
      plot_orc_efficiency_comparison_def savefig_def print_def parent_dirs)

lemma script_ok:
  assumes f: "''./results'' \<notin> dom (files w)"
    and n: "dirs w \<inter> {''./results/geothermal_capacity_trend.png'',
        ''./results/renewable_technology_comparison.png'',
        ''./results/top_geothermal_countries.png'',
        ''./results/orc_working_fluid_comparison.png'',
        ''./results/geothermal_investment_trends.png'',
        ''./results/geothermal_potential_by_region.png''} = {}"
  shows "script render palette w =
    (None, w\<lparr>dirs := insert ''./results'' (dirs w),
      files := (files w)(''./results/geothermal_capacity_trend.png'' \<mapsto> render CapacityTrend,
        ''./results/renewable_technology_comparison.png'' \<mapsto> render TechnologyComparison,
        ''./results/top_geothermal_countries.png'' \<mapsto> render TopCountries,
        ''./results/orc_working_fluid_comparison.png'' \<mapsto> render OrcEfficiency,
        ''./results/geothermal_investment_trends.png'' \<mapsto> render InvestmentTrends,
        ''./results/geothermal_potential_by_region.png'' \<mapsto> render PotentialMap),
      written := written w @ [''./results/geothermal_capacity_trend.png'',
        ''./results/renewable_technology_comparison.png'',
        ''./results/top_geothermal_countries.png'',
        ''./results/orc_working_fluid_comparison.png'',
        ''./results/geothermal_investment_trends.png'',
        ''./results/geothermal_potential_by_region.png''],
      console := console w @ [''Generating geothermal energy visualizations...'',
        check_mark @ '' Generated capacity trend visualization'',
        check_mark @ '' Generated technology comparison visualization'',
        check_mark @ '' Generated top countries visualization'',
        check_mark @ '' Generated ORC efficiency comparison'',
        check_mark @ '' Generated investment trends visualization'',
        check_mark @ '' Generated geothermal potential map'',
        CHR 0x0A # ''All visualizations have been saved to the 'results' directory.'']\<rparr>)"
proof (cases "''./results'' \<in> dirs w")
  case True
  then have i: "insert ''./results'' (dirs w) = dirs w" by auto
  from True show ?thesis
    by (simp add: script_def mkdir_exist_ok_def generate_all_visualizations_ok [OF True n] i)
next
  case False
  let ?w = "w\<lparr>dirs := insert ''./results'' (dirs w)\<rparr>"
  have d: "''./results'' \<in> dirs ?w" by simp
  have n': "dirs ?w \<inter> {''./results/geothermal_capacity_trend.png'',
        ''./results/renewable_technology_comparison.png'',
        ''./results/top_geothermal_countries.png'',
        ''./results/orc_working_fluid_comparison.png'',
        ''./results/geothermal_investment_trends.png'',
        ''./results/geothermal_potential_by_region.png''} = {}"
    using n by simp
  from False f show ?thesis
    by (simp add: script_def mkdir_exist_ok_def generate_all_visualizations_ok [OF d n'])
qed

lemma fresh_world_run:
  "script id flat_palette fresh_world =
    (None, \<lparr>dirs = {''./results''},
      files = (Map.empty)(''./results/geothermal_capacity_trend.png'' \<mapsto> id CapacityTrend,
        ''./results/renewable_technology_comparison.png'' \<mapsto> id TechnologyComparison,
        ''./results/top_geothermal_countries.png'' \<mapsto> id TopCountries,
        ''./results/orc_working_fluid_comparison.png'' \<mapsto> id OrcEfficiency,
        ''./results/geothermal_investment_trends.png'' \<mapsto> id InvestmentTrends,
        ''./results/geothermal_potential_by_region.png'' \<mapsto> id PotentialMap),
      written = [''./results/geothermal_capacity_trend.png'',
        ''./results/renewable_technology_comparison.png'',
        ''./results/top_geothermal_countries.png'',
        ''./results/orc_working_fluid_comparison.png'',
        ''./results/geothermal_investment_trends.png'',
        ''./results/geothermal_potential_by_region.png''],
      console = [''Generating geothermal energy visualizations...'',
        check_mark @ '' Generated capacity trend visualization'',
        check_mark @ '' Generated technology comparison visualization'',
        check_mark @ '' Generated top countries visualization'',
        check_mark @ '' Generated ORC efficiency comparison'',
        check_mark @ '' Generated investment trends visualization'',
        check_mark @ '' Generated geothermal potential map'',
        CHR 0x0A # ''All visualizations have been saved to the 'results' directory.'']\<rparr>)"
proof -
  have f: "''./results'' \<notin> dom (files fresh_world)" by (simp add: fresh_world_def)
  have n: "dirs fresh_world \<inter> {''./results/geothermal_capacity_trend.png'',
        ''./results/renewable_technology_comparison.png'',
        ''./results/top_geothermal_countries.png'',
        ''./results/orc_working_fluid_comparison.png'',
        ''./results/geothermal_investment_trends.png'',
        ''./results/geothermal_potential_by_region.png''} = {}"
    by (simp add: fresh_world_def)
  show ?thesis unfolding script_ok [OF f n] by (simp add: fresh_world_def)
qed

lemma new_capacity_upt:
  "\<forall>i \<in> set [1..<11].
     new_capacity ! i = cumulative_capacity ! i - cumulative_capacity ! (i - 1)"
  by (simp add: upt_rec new_capacity_def cumulative_capacity_def)

section \<open>The claims\<close>

text \<open>
  C1. The claim: the investment-per-MW average is taken only over the entries whose
  new capacity is strictly positive, so that the 2011 entry (new capacity -110)
  contributes nothing, and removing the positivity filter changes the average.
  The code does otherwise. The divisor is \<^verbatim>\<open>max(cap, 1)\<close>, so the 2011 ratio is
  2900 / 1 = 2900, which is positive and passes the filter \<^verbatim>\<open>i > 0\<close>; the filter
  removes no entry at all, the average with and without it is the same number
  (about 267.8), and it differs from the average over the entries of positive new
  capacity (about 4.56).
\<close>

theorem avg_inv_per_mw_keeps_2011:
  "inv_per_mw = Inr [1600 / 222, 2900, 1700 / 460, 2200 / 269, 2800 / 481, 2000 / 625,
                     2400 / 860, 3100 / 593, 2300 / 629, 1800 / 672, 2500 / 806]
   \<and> new_capacity ! 1 = -110
   \<and> filter (\<lambda>i. i > 0)
        [1600 / 222, 2900, 1700 / 460, 2200 / 269, 2800 / 481, 2000 / 625,
         2400 / 860, 3100 / 593, 2300 / 629, 1800 / 672, 2500 / 806 :: rat]
      = [1600 / 222, 2900, 1700 / 460, 2200 / 269, 2800 / 481, 2000 / 625,
         2400 / 860, 3100 / 593, 2300 / 629, 1800 / 672, 2500 / 806]
   \<and> avg_inv_per_mw = Inr (Some (49473859434558437839 / 184757012911691220))
   \<and> avg_inv_per_mw
      = Inr (np_mean [1600 / 222, 2900, 1700 / 460, 2200 / 269, 2800 / 481, 2000 / 625,
                      2400 / 860, 3100 / 593, 2300 / 629, 1800 / 672, 2500 / 806])
   \<and> spec_avg_inv_per_mw = Some (765192394203479839 / 167960920828810200)
   \<and> avg_inv_per_mw \<noteq> Inr spec_avg_inv_per_mw
   \<and> (267 :: rat) < 49473859434558437839 / 184757012911691220
   \<and> (765192394203479839 / 167960920828810200 :: rat) < 5"
  by (simp add: inv_per_mw_value avg_inv_per_mw_value spec_avg_inv_per_mw_def np_mean_def
      investment_def new_capacity_def)

text \<open>
  C2, as the claim states it: the growth rate of the capacity-trend chart is
  approximately 0.0383 (3.83 percent). It is not: the rate lies more than 0.0006
  above 0.0383.
\<close>

theorem cagr_is_not_383:
  "cagr = Inr ((15406 / 8686) powr (1 / 15) - 1)
   \<and> \<not> \<bar>(15406 / 8686) powr (1 / 15) - 1 - 0.0383\<bar> \<le> (0.0006 :: real)"
  using growth_factor_lower by (simp add: cagr_value)

text \<open>
  C2, amended. The capacity-trend operation computes the compound annual growth
  rate as (last/first)^(1/(n-1)) - 1 over the embedded series of 16 years, first
  value 8686 and last value 15406; the rate is (15406/8686)^(1/15) - 1, which lies
  between 0.03894 and 0.03895, that is approximately 0.0389 (3.89 percent).
\<close>

theorem cagr_is_389:
  "length years = 16 \<and> length capacity_mw = 16
   \<and> hd capacity_mw = 8686 \<and> last capacity_mw = 15406
   \<and> cagr = Inr ((real_of_int (last capacity_mw) / real_of_int (hd capacity_mw))
                   powr (1 / (real (length years) - 1)) - 1)
   \<and> cagr = Inr ((15406 / 8686) powr (1 / 15) - 1)
   \<and> 0.03894 < (15406 / 8686) powr (1 / 15) - (1 :: real)
   \<and> (15406 / 8686) powr (1 / 15) - (1 :: real) < 0.03895"
  using growth_factor_lower growth_factor_upper
  by (simp add: cagr_value capacity_mw_def years_def)

text \<open>
  C3. In the top-countries chart the generation series has 10 entries summing to
  86330, its arithmetic mean is exactly 8633, and each of the two axes gets one
  horizontal line, placed at the arithmetic mean of the series drawn on it.
\<close>

theorem top_countries_mean:
  "length generation_gwh = 10 \<and> sum_list generation_gwh = 86330
   \<and> np_mean (map of_int generation_gwh) = Some 8633
   \<and> bar_height top_countries_ax1 = map of_int generation_gwh
   \<and> axhline_y top_countries_ax1 = [np_mean (bar_height top_countries_ax1)]
   \<and> bar_height top_countries_ax2 = map of_int installed_mw
   \<and> axhline_y top_countries_ax2 = [np_mean (bar_height top_countries_ax2)]
   \<and> np_mean (map of_int installed_mw) = Some 1305"
  by (simp add: top_countries_ax1_def top_countries_ax2_def generation_gwh_def
      installed_mw_def np_mean_def)

text \<open>
  C4. In the technology comparison a bar gets the highlight colour exactly when
  its label is the string \<open>Geothermal\<close> (a label that differs in case does not).
  Of the six embedded technologies exactly one, the fifth, is \<open>Geothermal\<close>: on both
  charts, whatever colours seaborn gave the bars, the fifth bar ends with the
  highlight colour and the other five with the other colour.
\<close>

theorem geothermal_highlight:
  "(facecolor_of t = ''#d62728'') = (t = ''Geothermal'')
   \<and> (facecolor_of t = ''#1f77b4'') = (t \<noteq> ''Geothermal'')
   \<and> facecolor_of ''geothermal'' = ''#1f77b4''
   \<and> length technologies = 6
   \<and> filter (\<lambda>t. t = ''Geothermal'') technologies = [''Geothermal'']
   \<and> technologies ! 4 = ''Geothermal''
   \<and> technology_comparison_ax1 palette1 = Inr [''#1f77b4'', ''#1f77b4'', ''#1f77b4'', ''#1f77b4'', ''#d62728'', ''#1f77b4'']
   \<and> technology_comparison_ax2 palette2 = Inr [''#1f77b4'', ''#1f77b4'', ''#1f77b4'', ''#1f77b4'', ''#d62728'', ''#1f77b4'']"
  by (simp add: technology_colors technologies_def facecolor_of_def)

text \<open>
  C5. The regional-potential operation sorts its ten rows in descending order of
  potential. The potentials are pairwise distinct, so the descending order is
  unique (\<open>sort_values_desc_unique\<close>). After the sort the first row is North
  America (potential 35) and the last row is Middle East (potential 2).
\<close>

theorem potential_map_sorted:
  "\<exists>rows. potential_map_frame = Inr rows
     \<and> length rows = 10
     \<and> map region rows = [''North America'', ''Southeast Asia'', ''East Asia'', ''Europe'',
          ''Africa'', ''South America'', ''Oceania'', ''Central Asia'', ''Central America'',
          ''Middle East'']
     \<and> map potential_gw rows = [35, 30, 27, 18, 15, 12, 9, 8, 6, 2]
     \<and> distinct (map potential_gw rows)
     \<and> region (hd rows) = ''North America'' \<and> potential_gw (hd rows) = 35
     \<and> region (last rows) = ''Middle East'' \<and> potential_gw (last rows) = 2"
  by (simp add: potential_map_frame_def utilization_value data_frame_def sort_values_desc_def
      regions_def installed_capacity_gw_def potential_capacity_gw_def)

text \<open>
  C6. The utilization of a region is installed/potential*100; the division raises
  exactly when the potential is 0. No embedded potential is 0, so the utilization
  of all ten regions is computed, each equal to installed/potential*100, and these
  are the values of the utilization column of the frame.
\<close>

theorem utilization_defined:
  "utilization_entry i p = (if p = 0 then Inl ZeroDivisionError else Inr (i / of_int p * 100))
   \<and> 0 \<notin> set potential_capacity_gw
   \<and> length potential_capacity_gw = 10 \<and> length installed_capacity_gw = 10
   \<and> utilization = Inr (map (\<lambda>(i, p). i / of_int p * 100)
                            (zip installed_capacity_gw potential_capacity_gw))
   \<and> utilization = Inr [64 / 7, 35 / 3, 15 / 2, 55 / 3, 14 / 3, 5, 5 / 4, 380 / 27, 16, 140 / 9]
   \<and> (\<exists>rows. potential_map_frame = Inr rows
        \<and> map utilization_pct rows
          = map (\<lambda>r. installed_gw r / of_int (potential_gw r) * 100) rows)"
  by (simp add: utilization_entry_def truediv_def utilization_value potential_map_frame_def
      data_frame_def sort_values_desc_def regions_def installed_capacity_gw_def
      potential_capacity_gw_def)

text \<open>
  C7. A run of the script in a world where \<^verbatim>\<open>./results\<close> is not a regular file
  and none of the six output paths is a directory raises nothing. It leaves the
  directory \<^verbatim>\<open>./results\<close> existing (creating it again changes nothing), hands
  exactly six paths to \<^verbatim>\<open>savefig\<close>, pairwise distinct and one per chart topic,
  and changes the files at these six paths only. A second run, with other images,
  writes the same six paths in the same order, adds no file, and leaves at each
  path the image of the second run.
\<close>

theorem script_writes_six_files:
  assumes f: "''./results'' \<notin> dom (files w)"
    and n: "dirs w \<inter> {''./results/geothermal_capacity_trend.png'',
        ''./results/renewable_technology_comparison.png'',
        ''./results/top_geothermal_countries.png'',
        ''./results/orc_working_fluid_comparison.png'',
        ''./results/geothermal_investment_trends.png'',
        ''./results/geothermal_potential_by_region.png''} = {}"
  shows "\<exists>w1 w2.
     script render1 palette1 w = (None, w1)
   \<and> ''./results'' \<in> dirs w1 \<and> dirs w1 = insert ''./results'' (dirs w)
   \<and> mkdir_exist_ok ''./results'' w1 = Inr w1
   \<and> written w1 = written w @ [''./results/geothermal_capacity_trend.png'',
        ''./results/renewable_technology_comparison.png'',
        ''./results/top_geothermal_countries.png'',
        ''./results/orc_working_fluid_comparison.png'',
        ''./results/geothermal_investment_trends.png'',
        ''./results/geothermal_potential_by_region.png'']
   \<and> distinct [''./results/geothermal_capacity_trend.png'',
        ''./results/renewable_technology_comparison.png'',
        ''./results/top_geothermal_countries.png'',
        ''./results/orc_working_fluid_comparison.png'',
        ''./results/geothermal_investment_trends.png'',
        ''./results/geothermal_potential_by_region.png'']
   \<and> files w1 = (files w)(''./results/geothermal_capacity_trend.png'' \<mapsto> render1 CapacityTrend,
        ''./results/renewable_technology_comparison.png'' \<mapsto> render1 TechnologyComparison,
        ''./results/top_geothermal_countries.png'' \<mapsto> render1 TopCountries,
        ''./results/orc_working_fluid_comparison.png'' \<mapsto> render1 OrcEfficiency,
        ''./results/geothermal_investment_trends.png'' \<mapsto> render1 InvestmentTrends,
        ''./results/geothermal_potential_by_region.png'' \<mapsto> render1 PotentialMap)
   \<and> script render2 palette2 w1 = (None, w2)
   \<and> dirs w2 = dirs w1
   \<and> written w2 = written w1 @ [''./results/geothermal_capacity_trend.png'',
        ''./results/renewable_technology_comparison.png'',
        ''./results/top_geothermal_countries.png'',
        ''./results/orc_working_fluid_comparison.png'',
        ''./results/geothermal_investment_trends.png'',
        ''./results/geothermal_potential_by_region.png'']
   \<and> dom (files w2) = dom (files w1)
   \<and> files w2 = (files w)(''./results/geothermal_capacity_trend.png'' \<mapsto> render2 CapacityTrend,
        ''./results/renewable_technology_comparison.png'' \<mapsto> render2 TechnologyComparison,
        ''./results/top_geothermal_countries.png'' \<mapsto> render2 TopCountries,
        ''./results/orc_working_fluid_comparison.png'' \<mapsto> render2 OrcEfficiency,
        ''./results/geothermal_investment_trends.png'' \<mapsto> render2 InvestmentTrends,
        ''./results/geothermal_potential_by_region.png'' \<mapsto> render2 PotentialMap)"
proof -
  define w1 where "w1 = snd (script render1 palette1 w)"
  define w2 where "w2 = snd (script render2 palette2 w1)"
  note r1 = script_ok [OF f n, of render1 palette1]
  have e1: "script render1 palette1 w = (None, w1)"
    by (simp add: w1_def r1)
  have d1: "dirs w1 = insert ''./results'' (dirs w)"
    by (simp add: w1_def r1)
  have files1: "files w1 = (files w)(''./results/geothermal_capacity_trend.png'' \<mapsto> render1 CapacityTrend,
        ''./results/renewable_technology_comparison.png'' \<mapsto> render1 TechnologyComparison,
        ''./results/top_geothermal_countries.png'' \<mapsto> render1 TopCountries,
        ''./results/orc_working_fluid_comparison.png'' \<mapsto> render1 OrcEfficiency,
        ''./results/geothermal_investment_trends.png'' \<mapsto> render1 InvestmentTrends,
        ''./results/geothermal_potential_by_region.png'' \<mapsto> render1 PotentialMap)"
    by (simp add: w1_def r1)
  have wr1: "written w1 = written w @ [''./results/geothermal_capacity_trend.png'',
        ''./results/renewable_technology_comparison.png'',
        ''./results/top_geothermal_countries.png'',
        ''./results/orc_working_fluid_comparison.png'',
        ''./results/geothermal_investment_trends.png'',
        ''./results/geothermal_potential_by_region.png'']"
    by (simp add: w1_def r1)
  have f1: "''./results'' \<notin> dom (files w1)"
    using f by (simp add: files1)
  have n1: "dirs w1 \<inter> {''./results/geothermal_capacity_trend.png'',
        ''./results/renewable_technology_comparison.png'',
        ''./results/top_geothermal_countries.png'',
        ''./results/orc_working_fluid_comparison.png'',
        ''./results/geothermal_investment_trends.png'',
        ''./results/geothermal_potential_by_region.png''} = {}"
    using n by (simp add: d1)
  note r2 = script_ok [OF f1 n1, of render2 palette2]
  have e2: "script render2 palette2 w1 = (None, w2)"
    by (simp add: w2_def r2)
  have d2: "dirs w2 = dirs w1"
    by (simp add: w2_def r2 d1)
  have wr2: "written w2 = written w1 @ [''./results/geothermal_capacity_trend.png'',
        ''./results/renewable_technology_comparison.png'',
        ''./results/top_geothermal_countries.png'',
        ''./results/orc_working_fluid_comparison.png'',
        ''./results/geothermal_investment_trends.png'',
        ''./results/geothermal_potential_by_region.png'']"
    by (simp add: w2_def r2)
  have files2: "files w2 = (files w)(''./results/geothermal_capacity_trend.png'' \<mapsto> render2 CapacityTrend,
        ''./results/renewable_technology_comparison.png'' \<mapsto> render2 TechnologyComparison,
        ''./results/top_geothermal_countries.png'' \<mapsto> render2 TopCountries,
        ''./results/orc_working_fluid_comparison.png'' \<mapsto> render2 OrcEfficiency,
        ''./results/geothermal_investment_trends.png'' \<mapsto> render2 InvestmentTrends,
        ''./results/geothermal_potential_by_region.png'' \<mapsto> render2 PotentialMap)"
    by (rule ext) (simp add: w2_def r2 files1)
  have dom2: "dom (files w2) = dom (files w1)"
    unfolding files2 files1 by simp
  have m1: "mkdir_exist_ok ''./results'' w1 = Inr w1"
    by (simp add: mkdir_exist_ok_def d1)
  from e1 d1 m1 wr1 files1 e2 d2 wr2 dom2 files2 show ?thesis
    by (intro exI [of _ w1] exI [of _ w2]) simp
qed

text \<open>
  C7 at a concrete input: the two runs started in the empty working directory,
  where both hypotheses hold.
\<close>

theorem script_writes_six_files_witness:
  "''./results'' \<notin> dom (files fresh_world)
   \<and> dirs fresh_world \<inter> {''./results/geothermal_capacity_trend.png'',
        ''./results/renewable_technology_comparison.png'',
        ''./results/top_geothermal_countries.png'',
        ''./results/orc_working_fluid_comparison.png'',
        ''./results/geothermal_investment_trends.png'',
        ''./results/geothermal_potential_by_region.png''} = {}
   \<and> (\<exists>w1 w2.
     script id flat_palette fresh_world = (None, w1)
   \<and> ''./results'' \<in> dirs w1 \<and> dirs w1 = insert ''./results'' (dirs fresh_world)
   \<and> mkdir_exist_ok ''./results'' w1 = Inr w1
   \<and> written w1 = written fresh_world @ [''./results/geothermal_capacity_trend.png'',
        ''./results/renewable_technology_comparison.png'',
        ''./results/top_geothermal_countries.png'',
        ''./results/orc_working_fluid_comparison.png'',
        ''./results/geothermal_investment_trends.png'',
        ''./results/geothermal_potential_by_region.png'']
   \<and> distinct [''./results/geothermal_capacity_trend.png'',
        ''./results/renewable_technology_comparison.png'',
        ''./results/top_geothermal_countries.png'',
        ''./results/orc_working_fluid_comparison.png'',
        ''./results/geothermal_investment_trends.png'',
        ''./results/geothermal_potential_by_region.png'']
   \<and> files w1 = (files fresh_world)(''./results/geothermal_capacity_trend.png'' \<mapsto> id CapacityTrend,
        ''./results/renewable_technology_comparison.png'' \<mapsto> id TechnologyComparison,
        ''./results/top_geothermal_countries.png'' \<mapsto> id TopCountries,
        ''./results/orc_working_fluid_comparison.png'' \<mapsto> id OrcEfficiency,
        ''./results/geothermal_investment_trends.png'' \<mapsto> id InvestmentTrends,
        ''./results/geothermal_potential_by_region.png'' \<mapsto> id PotentialMap)
   \<and> script id flat_palette w1 = (None, w2)
   \<and> dirs w2 = dirs w1
   \<and> written w2 = written w1 @ [''./results/geothermal_capacity_trend.png'',
        ''./results/renewable_technology_comparison.png'',
        ''./results/top_geothermal_countries.png'',
        ''./results/orc_working_fluid_comparison.png'',
        ''./results/geothermal_investment_trends.png'',
        ''./results/geothermal_potential_by_region.png'']
   \<and> dom (files w2) = dom (files w1)
   \<and> files w2 = (files fresh_world)(''./results/geothermal_capacity_trend.png'' \<mapsto> id CapacityTrend,
        ''./results/renewable_technology_comparison.png'' \<mapsto> id TechnologyComparison,
        ''./results/top_geothermal_countries.png'' \<mapsto> id TopCountries,
        ''./results/orc_working_fluid_comparison.png'' \<mapsto> id OrcEfficiency,
        ''./results/geothermal_investment_trends.png'' \<mapsto> id InvestmentTrends,
        ''./results/geothermal_potential_by_region.png'' \<mapsto> id PotentialMap))"
proof -
  have f: "''./results'' \<notin> dom (files fresh_world)"
    by (simp add: fresh_world_def)
  have n: "dirs fresh_world \<inter> {''./results/geothermal_capacity_trend.png'',
        ''./results/renewable_technology_comparison.png'',
        ''./results/top_geothermal_countries.png'',
        ''./results/orc_working_fluid_comparison.png'',
        ''./results/geothermal_investment_trends.png'',
        ''./results/geothermal_potential_by_region.png''} = {}"
    by (simp add: fresh_world_def)
  from f n script_writes_six_files [OF f n, of id flat_palette id flat_palette]
  show ?thesis by (intro conjI)
qed

text \<open>
  C8, as the claim states it: the console output of a run consists of the six
  progress lines and the final summary line. It does not: a run in the empty
  working directory prints eight lines, the first of which,
  \<^verbatim>\<open>Generating geothermal energy visualizations...\<close>, is printed before any chart
  is drawn.
\<close>

theorem console_is_not_seven_lines:
  "console (snd (script id flat_palette fresh_world))
     \<noteq> [check_mark @ '' Generated capacity trend visualization'',
        check_mark @ '' Generated technology comparison visualization'',
        check_mark @ '' Generated top countries visualization'',
        check_mark @ '' Generated ORC efficiency comparison'',
        check_mark @ '' Generated investment trends visualization'',
        check_mark @ '' Generated geothermal potential map'',
        CHR 0x0A # ''All visualizations have been saved to the 'results' directory.'']
   \<and> length (console (snd (script id flat_palette fresh_world))) = 8
   \<and> hd (console (snd (script id flat_palette fresh_world)))
     = ''Generating geothermal energy visualizations...''"
  by (simp add: fresh_world_run)

text \<open>
  C8, amended. The driver runs the six chart operations unconditionally in a fixed
  order (capacity trend, technology comparison, top countries, working-fluid
  efficiency, investment trends, regional potential), and its console output is a
  fixed sequence: one opening line, then one progress line per completed chart,
  then the final summary line. Stated for a start where the output directory
  exists and none of the six paths is a directory.
\<close>

theorem driver_sequence:
  assumes d: "''./results'' \<in> dirs w"
    and n: "dirs w \<inter> {''./results/geothermal_capacity_trend.png'',
        ''./results/renewable_technology_comparison.png'',
        ''./results/top_geothermal_countries.png'',
        ''./results/orc_working_fluid_comparison.png'',
        ''./results/geothermal_investment_trends.png'',
        ''./results/geothermal_potential_by_region.png''} = {}"
  shows "\<exists>w'. generate_all_visualizations render palette w = (None, w')
     \<and> written w' = written w @ [''./results/geothermal_capacity_trend.png'',
        ''./results/renewable_technology_comparison.png'',
        ''./results/top_geothermal_countries.png'',
        ''./results/orc_working_fluid_comparison.png'',
        ''./results/geothermal_investment_trends.png'',
        ''./results/geothermal_potential_by_region.png'']
     \<and> console w' = console w @ [''Generating geothermal energy visualizations...'',
        check_mark @ '' Generated capacity trend visualization'',
        check_mark @ '' Generated technology comparison visualization'',
        check_mark @ '' Generated top countries visualization'',
        check_mark @ '' Generated ORC efficiency comparison'',
        check_mark @ '' Generated investment trends visualization'',
        check_mark @ '' Generated geothermal potential map'',
        CHR 0x0A # ''All visualizations have been saved to the 'results' directory.'']"
  by (simp add: generate_all_visualizations_ok [OF d n])

text \<open>
  C8 amended, at a concrete input: the driver started in the empty working
  directory once \<^verbatim>\<open>./results\<close> has been created.
\<close>

theorem driver_sequence_witness:
  "''./results'' \<in> dirs (fresh_world\<lparr>dirs := {''./results''}\<rparr>)
   \<and> dirs (fresh_world\<lparr>dirs := {''./results''}\<rparr>) \<inter> {''./results/geothermal_capacity_trend.png'',
        ''./results/renewable_technology_comparison.png'',
        ''./results/top_geothermal_countries.png'',
        ''./results/orc_working_fluid_comparison.png'',
        ''./results/geothermal_investment_trends.png'',
        ''./results/geothermal_potential_by_region.png''} = {}
   \<and> (\<exists>w'. generate_all_visualizations id flat_palette (fresh_world\<lparr>dirs := {''./results''}\<rparr>)
            = (None, w')
     \<and> written w' = written (fresh_world\<lparr>dirs := {''./results''}\<rparr>) @ [''./results/geothermal_capacity_trend.png'',
        ''./results/renewable_technology_comparison.png'',
        ''./results/top_geothermal_countries.png'',
        ''./results/orc_working_fluid_comparison.png'',
        ''./results/geothermal_investment_trends.png'',
        ''./results/geothermal_potential_by_region.png'']
     \<and> console w' = console (fresh_world\<lparr>dirs := {''./results''}\<rparr>) @ [''Generating geothermal energy visualizations...'',
        check_mark @ '' Generated capacity trend visualization'',
        check_mark @ '' Generated technology comparison visualization'',
        check_mark @ '' Generated top countries visualization'',
        check_mark @ '' Generated ORC efficiency comparison'',
        check_mark @ '' Generated investment trends visualization'',
        check_mark @ '' Generated geothermal potential map'',
        CHR 0x0A # ''All visualizations have been saved to the 'results' directory.''])"
proof -
  have d: "''./results'' \<in> dirs (fresh_world\<lparr>dirs := {''./results''}\<rparr>)"
    by simp
  have n: "dirs (fresh_world\<lparr>dirs := {''./results''}\<rparr>) \<inter> {''./results/geothermal_capacity_trend.png'',
        ''./results/renewable_technology_comparison.png'',
        ''./results/top_geothermal_countries.png'',
        ''./results/orc_working_fluid_comparison.png'',
        ''./results/geothermal_investment_trends.png'',
        ''./results/geothermal_potential_by_region.png''} = {}"
    by simp
  from d n driver_sequence [OF d n, of id flat_palette]
  show ?thesis by (intro conjI)
qed

text \<open>
  C9. The tables of the investment-trends chart are consistent with each other and
  with the capacity-trend chart: for every index i from 1 to 10 the new capacity at
  i is the cumulative capacity at i minus the cumulative capacity at i - 1, and
  the 11 cumulative capacities are the last 11 entries of the capacity series of
  the capacity-trend chart (the years 2010 to 2020).
\<close>

theorem investment_tables_consistent:
  "(\<forall>i. 1 \<le> i \<and> i \<le> 10 \<longrightarrow>
        new_capacity ! i = cumulative_capacity ! i - cumulative_capacity ! (i - 1))
   \<and> length cumulative_capacity = 11 \<and> length new_capacity = 11
   \<and> cumulative_capacity = drop (length capacity_mw - 11) capacity_mw
   \<and> investment_years = drop (length years - 11) years
   \<and> hd investment_years = 2010 \<and> last investment_years = 2020"
proof (intro conjI allI impI)
  fix i :: nat
  assume "1 \<le> i \<and> i \<le> 10"
  then have "i \<in> set [1..<11]" by simp
  with new_capacity_upt
  show "new_capacity ! i = cumulative_capacity ! i - cumulative_capacity ! (i - 1)"
    by blast
qed (simp_all add: new_capacity_def cumulative_capacity_def capacity_mw_def
    investment_years_def years_def upto.simps)

text \<open>C9 at the index 3 (the year 2013): 269 = 10740 - 10471.\<close>

theorem investment_tables_consistent_witness:
  "(1 :: nat) \<le> 3 \<and> (3 :: nat) \<le> 10
   \<and> new_capacity ! 3 = cumulative_capacity ! 3 - cumulative_capacity ! (3 - 1)
   \<and> new_capacity ! 3 = 269 \<and> cumulative_capacity ! 3 = 10740
   \<and> cumulative_capacity ! 2 = 10471"
proof -
  have h: "(1 :: nat) \<le> 3 \<and> (3 :: nat) \<le> 10" by simp
  with investment_tables_consistent
  have "new_capacity ! 3 = cumulative_capacity ! 3 - cumulative_capacity ! (3 - 1)"
    by blast
  with h show ?thesis by (simp add: new_capacity_def cumulative_capacity_def)
qed

text \<open>
  C10. The per-entry ratio \<^verbatim>\<open>inv / max(cap, 1)\<close> never raises, whatever integers
  the investment and the capacity are, because its divisor \<^verbatim>\<open>max(cap, 1)\<close> is at
  least 1. The 2011 entry (index 1) has investment 2900 and new capacity -110; its
  divisor is 1 and its ratio is 2900, which is strictly positive.
\<close>

theorem inv_per_mw_entry_total:
  "1 \<le> max cap 1
   \<and> inv_per_mw_entry invst cap = Inr (of_int invst / of_int (max cap 1))
   \<and> investment_years ! 1 = 2011 \<and> investment ! 1 = 2900 \<and> new_capacity ! 1 = -110
   \<and> max (-110) 1 = (1::int)
   \<and> inv_per_mw_entry 2900 (-110) = Inr 2900
   \<and> (0::rat) < 2900"
  by (simp add: inv_per_mw_entry_def truediv_def investment_def new_capacity_def
      investment_years_def upto.simps)

end
